theory Spec2Isabelle
  imports Main
begin

section \<open>tea.commander.ui: formatter strategy and console user interface\<close>

text \<open>
  The module \<^verbatim>\<open>src/tea/commander/ui.py\<close> (Python 2) defines the abstract class
  \<^verbatim>\<open>UserInterface\<close>, the strategy \<^verbatim>\<open>StatusConsoleFormatter\<close> and the implementation
  \<^verbatim>\<open>ConsoleUserInterface\<close>. The embedding keeps Python's objects in an explicit store,
  since two of the properties are about object identity, and keeps the attribute
  dictionary of the user interface instance as a map from attribute names to references,
  since two of them are about which attribute a name denotes.

  The methods are modelled on an instance on which \<^verbatim>\<open>__init__\<close> has run. How the
  instance comes to exist is outside the model: under Python 2 the metaclass
  \<^verbatim>\<open>ABCMeta\<close> still counts the inherited property \<^verbatim>\<open>formater\<close> of \<^verbatim>\<open>UserInterface\<close> as
  abstract, so an instance is one of a subclass that overrides it; the methods it
  inherits, and the private name \<^verbatim>\<open>_ConsoleUserInterface__formatter\<close>, are the same.
\<close>

subsection \<open>Names the module imports\<close>

text \<open>
  Modelled from the spec: the module \<^verbatim>\<open>tea.console.color\<close> (\<^verbatim>\<open>Color\<close>, \<^verbatim>\<open>cprint\<close>) is not
  among the sources. The spec calls a color "a named/enumerable value (e.g., green for
  success, red for failure)"; \<^verbatim>\<open>Color.green\<close> and \<^verbatim>\<open>Color.red\<close> are the two members the
  module names, every other member is \<open>Color_named\<close>.
\<close>

datatype Color = Color_green | Color_red | Color_named string

text \<open>The exceptions that the modelled code can raise; \<open>Raised\<close> is an exception of
  code outside the module (a custom formatter, the terminal). \<open>SystemError\<close> stands for
  a reference to no object, which Python never produces.\<close>

datatype pyerror = TypeError | KeyError | AttributeError | SystemError | Raised string

text \<open>
  The operator \<^verbatim>\<open>%\<close> on a format string and one string argument, for formats whose only
  conversion is one \<^verbatim>\<open>%s\<close>: the argument replaces the conversion.
\<close>

fun percent_format :: "string \<Rightarrow> string \<Rightarrow> string" where
  "percent_format (c1 # c2 # rest) arg =
     (if c1 = CHR ''%'' \<and> c2 = CHR ''s'' then arg @ rest
      else c1 # percent_format (c2 # rest) arg)"
| "percent_format fmt arg = fmt"

subsection \<open>The status-to-color mapping\<close>

text \<open>
  \<^verbatim>\<open>self.status_colors\<close> is either a \<^verbatim>\<open>collections.defaultdict\<close> (built by the
  constructor) or whatever mapping the caller supplied. A plain \<^verbatim>\<open>dict\<close> is the case
  \<open>default_factory = None\<close>. Subscripting a \<^verbatim>\<open>defaultdict\<close> at a missing key calls the
  factory, stores the value under the key and returns it; subscripting a plain
  \<^verbatim>\<open>dict\<close> at a missing key raises \<^verbatim>\<open>KeyError\<close>.
\<close>

record status_colors =
  default_factory :: "(unit \<Rightarrow> Color) option"
  items :: "int \<rightharpoonup> Color"

definition setitem :: "status_colors \<Rightarrow> int \<Rightarrow> Color \<Rightarrow> status_colors" where
  "setitem m k v = m\<lparr>items := (items m)(k \<mapsto> v)\<rparr>"

definition getitem :: "status_colors \<Rightarrow> int \<Rightarrow> pyerror + (Color \<times> status_colors)" where
  "getitem m k =
     (case items m k of
        Some v \<Rightarrow> Inr (v, m)
      | None \<Rightarrow>
          (case default_factory m of
             None \<Rightarrow> Inl KeyError
           | Some factory \<Rightarrow> (let v = factory () in Inr (v, setitem m k v))))"

subsection \<open>StatusConsoleFormatter\<close>

text \<open>
  \<^verbatim>\<open>
  def __init__(self, status_colors=None):
      if status_colors is None:
          self.status_colors    = collections.defaultdict(lambda: Color.red)
          self.status_colors[0] = Color.green
      else:
          self.status_colors = status_colors
  \<close>
  The result is the value of the one attribute of the new formatter.
\<close>

definition StatusConsoleFormatter_init :: "status_colors option \<Rightarrow> status_colors" where
  "StatusConsoleFormatter_init status_colors_arg =
     (case status_colors_arg of
        None \<Rightarrow>
          setitem \<lparr>default_factory = Some (\<lambda>_. Color_red), items = Map.empty\<rparr> 0 Color_green
      | Some supplied \<Rightarrow> supplied)"

text \<open>
  \<^verbatim>\<open>
  def __call__(self, obj, status, data):
      return [('%s\n' % str(obj), self.status_colors[status])]
  \<close>
  \<open>str\<close> is Python's \<^verbatim>\<open>str\<close> on the objects reported, a parameter of the model. The
  second component of the result is the mapping after the call (a \<^verbatim>\<open>defaultdict\<close>
  grows when a missing status is looked up).
\<close>

definition StatusConsoleFormatter_call ::
  "('o \<Rightarrow> string) \<Rightarrow> status_colors \<Rightarrow> 'o \<Rightarrow> int \<Rightarrow> 'd option
     \<Rightarrow> (pyerror + (string \<times> Color) list) \<times> status_colors" where
  "StatusConsoleFormatter_call str self_colors obj stat dat =
     (let text = percent_format ''%s\<newline>'' (str obj) in
      case getitem self_colors stat of
        Inl e \<Rightarrow> (Inl e, self_colors)
      | Inr (color, colors') \<Rightarrow> (Inr [(text, color)], colors'))"

subsection \<open>Objects, the store and the instance\<close>

text \<open>The record that \<^verbatim>\<open>report\<close> appends: the dictionary
  \<^verbatim>\<open>{'object': obj, 'status': status, 'data': data}\<close>; \<open>None\<close> in \<open>data\<close> is Python's
  \<^verbatim>\<open>None\<close>.\<close>

record ('o, 'd) report_record =
  object :: 'o
  status :: int
  data :: "'d option"

text \<open>
  The objects of the store: an instance of \<^verbatim>\<open>StatusConsoleFormatter\<close> with its attribute
  \<^verbatim>\<open>status_colors\<close>; any other callable of three positional parameters (a custom
  formatter), given by what it returns or raises; a list of report records; and any
  other object (the configuration), which is not callable and has no \<^verbatim>\<open>append\<close>.
\<close>

type_synonym ref = nat

datatype ('c, 'o, 'd) pyobject =
    StatusConsoleFormatter status_colors
  | Callable "'o \<Rightarrow> int \<Rightarrow> 'd option \<Rightarrow> pyerror + (string \<times> Color) list"
  | ListObject "('o, 'd) report_record list"
  | Opaque 'c

text \<open>
  A world is the store (a reference is an index into \<open>heap\<close>; objects are never freed
  while referenced), the attribute dictionary of the one \<^verbatim>\<open>ConsoleUserInterface\<close>
  instance under study, and the calls of \<^verbatim>\<open>cprint(text, color)\<close> made so far, oldest
  first.
\<close>

record ('c, 'o, 'd) world =
  heap :: "('c, 'o, 'd) pyobject list"
  self_dict :: "string \<rightharpoonup> ref"
  console :: "(string \<times> Color) list"

definition alloc :: "('c, 'o, 'd) world \<Rightarrow> ('c, 'o, 'd) pyobject \<Rightarrow> ref \<times> ('c, 'o, 'd) world" where
  "alloc w ob = (length (heap w), w\<lparr>heap := heap w @ [ob]\<rparr>)"

text \<open>Modelled from the spec: \<^verbatim>\<open>cprint\<close> is not among the sources; the spec's
  "color-capable text printer". The model records the call.\<close>

definition cprint :: "string \<Rightarrow> Color \<Rightarrow> ('c, 'o, 'd) world \<Rightarrow> ('c, 'o, 'd) world" where
  "cprint text color w = w\<lparr>console := console w @ [(text, color)]\<rparr>"

subsection \<open>Attribute lookup on the instance\<close>

text \<open>
  What the classes of the module define, as seen from a \<^verbatim>\<open>ConsoleUserInterface\<close>:
  its own \<^verbatim>\<open>__init__\<close>, \<^verbatim>\<open>formatter\<close> (a property with getter and setter), \<^verbatim>\<open>ask\<close>,
  \<^verbatim>\<open>error\<close>, \<^verbatim>\<open>report\<close>, and from \<^verbatim>\<open>UserInterface\<close> the property \<^verbatim>\<open>formater\<close> and
  the attribute \<^verbatim>\<open>__metaclass__\<close>. The attributes of \<^verbatim>\<open>object\<close> are left out; none of
  them is named \<^verbatim>\<open>__formatter\<close> or \<^verbatim>\<open>report\<close>.
\<close>

datatype member = Method | Property | Class_attribute

definition class_attrs :: "string \<rightharpoonup> member" where
  "class_attrs =
     [''__init__'' \<mapsto> Method, ''formatter'' \<mapsto> Property, ''ask'' \<mapsto> Method,
      ''error'' \<mapsto> Method, ''report'' \<mapsto> Method, ''formater'' \<mapsto> Property,
      ''__metaclass__'' \<mapsto> Class_attribute]"

text \<open>\<^verbatim>\<open>hasattr(self, name)\<close>: the name is looked up as it is written in the string.\<close>

definition hasattr :: "('c, 'o, 'd) world \<Rightarrow> string \<Rightarrow> bool" where
  "hasattr w name \<longleftrightarrow> class_attrs name \<noteq> None \<or> self_dict w name \<noteq> None"

text \<open>
  Reading \<^verbatim>\<open>self.name\<close>: a property of the class comes first, then the instance
  dictionary, then the other attributes of the class.
\<close>

datatype attr = Via_property | Instance_attr ref | Bound_method | From_class

definition getattr :: "('c, 'o, 'd) world \<Rightarrow> string \<Rightarrow> pyerror + attr" where
  "getattr w name =
     (if class_attrs name = Some Property then Inr Via_property
      else case self_dict w name of
             Some r \<Rightarrow> Inr (Instance_attr r)
           | None \<Rightarrow>
               (case class_attrs name of
                  Some Method \<Rightarrow> Inr Bound_method
                | Some _ \<Rightarrow> Inr From_class
                | None \<Rightarrow> Inl AttributeError))"

text \<open>Writing \<^verbatim>\<open>self.name = value\<close> for a name that is no property of the class.\<close>

definition setattr :: "('c, 'o, 'd) world \<Rightarrow> string \<Rightarrow> ref \<Rightarrow> ('c, 'o, 'd) world" where
  "setattr w name r = w\<lparr>self_dict := (self_dict w)(name \<mapsto> r)\<rparr>"

text \<open>
  Inside a class body an identifier that starts with two underscores and does not end
  with two is private: the compiler rewrites it to \<^verbatim>\<open>_Class\<close> followed by the
  identifier. String literals are not rewritten.
\<close>

definition mangle :: "string \<Rightarrow> string \<Rightarrow> string" where
  "mangle cls name =
     (if take 2 name = ''__'' \<and> drop (length name - 2) name \<noteq> ''__''
      then ''_'' @ cls @ name else name)"

subsection \<open>ConsoleUserInterface\<close>

text \<open>
  \<^verbatim>\<open>
  def __init__(self, config):
      self.config = config
      self.report = []
  \<close>
\<close>

definition init :: "('c, 'o, 'd) world \<Rightarrow> ref \<Rightarrow> ('c, 'o, 'd) world" where
  "init w config =
     (let w1 = setattr w ''config'' config;
          (log, w2) = alloc w1 (ListObject [])
      in setattr w2 ''report'' log)"

text \<open>\<^verbatim>\<open>ConsoleUserInterface(config)\<close> in a store that holds the configuration only.\<close>

definition new_ConsoleUserInterface :: "'c \<Rightarrow> ('c, 'o, 'd) world" where
  "new_ConsoleUserInterface cfg =
     init \<lparr>heap = [Opaque cfg], self_dict = Map.empty, console = []\<rparr> 0"

text \<open>
  \<^verbatim>\<open>
  @property
  def formatter(self):
      if not hasattr(self, '__formatter'):
          self.__formatter = StatusConsoleFormatter()
      return self.__formatter

  @formatter.setter
  def formatter(self, value):
      self.__formatter = value
  \<close>
\<close>

definition formatter_get :: "('c, 'o, 'd) world \<Rightarrow> (pyerror + ref) \<times> ('c, 'o, 'd) world" where
  "formatter_get w =
     (let w1 =
        (if \<not> hasattr w ''__formatter''
         then (let (f, w') = alloc w (StatusConsoleFormatter (StatusConsoleFormatter_init None))
               in setattr w' (mangle ''ConsoleUserInterface'' ''__formatter'') f)
         else w)
      in case self_dict w1 (mangle ''ConsoleUserInterface'' ''__formatter'') of
           Some f \<Rightarrow> (Inr f, w1)
         | None \<Rightarrow> (Inl AttributeError, w1))"

definition formatter_set :: "('c, 'o, 'd) world \<Rightarrow> ref \<Rightarrow> ('c, 'o, 'd) world" where
  "formatter_set w val = setattr w (mangle ''ConsoleUserInterface'' ''__formatter'') val"

text \<open>
  \<^verbatim>\<open>
  def ask(self, message=None, password=False):
      message = message or ''
      if password:
          return getpass.getpass(message)
      return raw_input(message)
  \<close>
  The two readers belong to Python; a terminal gives, for a prompt, the line each of
  them returns or the exception it raises.
\<close>

record terminal =
  getpass :: "string \<Rightarrow> pyerror + string"
  raw_input :: "string \<Rightarrow> pyerror + string"

definition or_empty :: "string option \<Rightarrow> string" where
  "or_empty message = (case message of None \<Rightarrow> [] | Some m \<Rightarrow> if m = [] then [] else m)"

definition ask :: "terminal \<Rightarrow> string option \<Rightarrow> bool \<Rightarrow> pyerror + string" where
  "ask tty message password =
     (let message' = or_empty message in
      if password then getpass tty message' else raw_input tty message')"

text \<open>
  \<^verbatim>\<open>
  def error(self, message):
      cprint('ERROR: %s\n', Color.red)
  \<close>
\<close>

definition error :: "('c, 'o, 'd) world \<Rightarrow> string \<Rightarrow> ('c, 'o, 'd) world" where
  "error w message = cprint ''ERROR: %s\<newline>'' Color_red w"

text \<open>Calling the object at a reference with the arguments given (\<open>None\<close>: argument
  left out). Both callables take three positional parameters without defaults.\<close>

definition call_object ::
  "('o \<Rightarrow> string) \<Rightarrow> ('c, 'o, 'd) world \<Rightarrow> ref \<Rightarrow> 'o \<Rightarrow> int option \<Rightarrow> 'd option option
     \<Rightarrow> (pyerror + (string \<times> Color) list) \<times> ('c, 'o, 'd) world" where
  "call_object str w f obj status_arg data_arg =
     (if length (heap w) \<le> f then (Inl SystemError, w)
      else case heap w ! f of
             ListObject xs \<Rightarrow> (Inl TypeError, w)
           | Opaque c \<Rightarrow> (Inl TypeError, w)
           | Callable g \<Rightarrow>
               (case (status_arg, data_arg) of
                  (Some stat, Some dat) \<Rightarrow> (g obj stat dat, w)
                | _ \<Rightarrow> (Inl TypeError, w))
           | StatusConsoleFormatter colors \<Rightarrow>
               (case (status_arg, data_arg) of
                  (Some stat, Some dat) \<Rightarrow>
                    (let (res, colors') = StatusConsoleFormatter_call str colors obj stat dat
                     in (res, w\<lparr>heap := (heap w)[f := StatusConsoleFormatter colors']\<rparr>))
                | _ \<Rightarrow> (Inl TypeError, w)))"

text \<open>\<^verbatim>\<open>xs.append(x)\<close> on the object at a reference.\<close>

definition append_to ::
  "('c, 'o, 'd) world \<Rightarrow> ref \<Rightarrow> ('o, 'd) report_record \<Rightarrow> pyerror + ('c, 'o, 'd) world" where
  "append_to w l x =
     (if length (heap w) \<le> l then Inl SystemError
      else case heap w ! l of
             ListObject xs \<Rightarrow> Inr (w\<lparr>heap := (heap w)[l := ListObject (xs @ [x])]\<rparr>)
           | _ \<Rightarrow> Inl AttributeError)"

text \<open>
  \<^verbatim>\<open>
  def report(self, obj, status=0, data=None):
      self.report.append({
          'object' : obj,
          'status' : status,
          'data'   : data,
      })
      for line, color in self.formatter(obj, status, data):
          cprint(line, color)
  \<close>
  \<open>report_loop\<close> is the \<^verbatim>\<open>for\<close> loop, \<open>report_body\<close> the body with its parameters bound,
  \<open>report\<close> the function as the class holds it: an argument left out takes its
  default.
\<close>

fun report_loop :: "(string \<times> Color) list \<Rightarrow> ('c, 'o, 'd) world \<Rightarrow> ('c, 'o, 'd) world" where
  "report_loop [] w = w"
| "report_loop ((line, color) # rest) w = report_loop rest (cprint line color w)"

definition report_body ::
  "('o \<Rightarrow> string) \<Rightarrow> ('c, 'o, 'd) world \<Rightarrow> 'o \<Rightarrow> int \<Rightarrow> 'd option
     \<Rightarrow> (pyerror + unit) \<times> ('c, 'o, 'd) world" where
  "report_body str w obj stat dat =
     (case getattr w ''report'' of
        Inl e \<Rightarrow> (Inl e, w)
      | Inr (Instance_attr l) \<Rightarrow>
          (case append_to w l \<lparr>object = obj, status = stat, data = dat\<rparr> of
             Inl e \<Rightarrow> (Inl e, w)
           | Inr w1 \<Rightarrow>
               (case formatter_get w1 of
                  (Inl e, w2) \<Rightarrow> (Inl e, w2)
                | (Inr f, w2) \<Rightarrow>
                    (case call_object str w2 f obj (Some stat) (Some dat) of
                       (Inl e, w3) \<Rightarrow> (Inl e, w3)
                     | (Inr lines, w3) \<Rightarrow> (Inr (), report_loop lines w3))))
      | Inr _ \<Rightarrow> (Inl AttributeError, w))"

definition report ::
  "('o \<Rightarrow> string) \<Rightarrow> ('c, 'o, 'd) world \<Rightarrow> 'o \<Rightarrow> int option \<Rightarrow> 'd option option
     \<Rightarrow> (pyerror + unit) \<times> ('c, 'o, 'd) world" where
  "report str w obj status_arg data_arg =
     report_body str w obj
       (case status_arg of None \<Rightarrow> 0 | Some s \<Rightarrow> s)
       (case data_arg of None \<Rightarrow> None | Some d \<Rightarrow> d)"

text \<open>
  The call \<^verbatim>\<open>ui.report(obj, status, data)\<close> on the instance: the attribute \<^verbatim>\<open>report\<close> is
  read from the instance first, and what it yields is called.
\<close>

definition invoke_report ::
  "('o \<Rightarrow> string) \<Rightarrow> ('c, 'o, 'd) world \<Rightarrow> 'o \<Rightarrow> int option \<Rightarrow> 'd option option
     \<Rightarrow> (pyerror + unit) \<times> ('c, 'o, 'd) world" where
  "invoke_report str w obj status_arg data_arg =
     (case getattr w ''report'' of
        Inl e \<Rightarrow> (Inl e, w)
      | Inr Bound_method \<Rightarrow> report str w obj status_arg data_arg
      | Inr (Instance_attr r) \<Rightarrow>
          (case call_object str w r obj status_arg data_arg of
             (Inl e, w') \<Rightarrow> (Inl e, w')
           | (Inr res, w') \<Rightarrow> (Inr (), w'))
      | Inr _ \<Rightarrow> (Inl TypeError, w))"

text \<open>
  The states of an instance: constructed in some store, then used through the
  interface of the class, while the caller creates objects of its own and installs
  formatters that exist.
\<close>

inductive reachable :: "('o \<Rightarrow> string) \<Rightarrow> ('c, 'o, 'd) world \<Rightarrow> bool"
  for str :: "'o \<Rightarrow> string" where
  constructed: "config < length hp \<Longrightarrow>
      reachable str (init \<lparr>heap = hp, self_dict = Map.empty, console = out\<rparr> config)"
| created: "reachable str w \<Longrightarrow> reachable str (snd (alloc w ob))"
| formatter_read: "reachable str w \<Longrightarrow> reachable str (snd (formatter_get w))"
| formatter_written: "reachable str w \<Longrightarrow> f < length (heap w) \<Longrightarrow> reachable str (formatter_set w f)"
| reported: "reachable str w \<Longrightarrow> reachable str (snd (report str w obj status_arg data_arg))"
| invoked: "reachable str w \<Longrightarrow> reachable str (snd (invoke_report str w obj status_arg data_arg))"
| error_shown: "reachable str w \<Longrightarrow> reachable str (error w message)"

text \<open>
  What holds of every such state: the instance has no attribute with the literal name
  \<^verbatim>\<open>__formatter\<close>, and its attribute \<^verbatim>\<open>report\<close> refers to a list in the store.
  \<open>log_of\<close> reads that list.
\<close>

definition well_formed :: "('c, 'o, 'd) world \<Rightarrow> bool" where
  "well_formed w \<longleftrightarrow>
     self_dict w ''__formatter'' = None \<and>
     (case self_dict w ''report'' of
        None \<Rightarrow> False
      | Some l \<Rightarrow> l < length (heap w) \<and> (case heap w ! l of ListObject xs \<Rightarrow> True | _ \<Rightarrow> False))"

definition log_of :: "('c, 'o, 'd) world \<Rightarrow> ('o, 'd) report_record list" where
  "log_of w =
     (case self_dict w ''report'' of
        None \<Rightarrow> []
      | Some l \<Rightarrow> (if l < length (heap w) then (case heap w ! l of ListObject xs \<Rightarrow> xs | _ \<Rightarrow> []) else []))"

text \<open>Concrete objects and instances for the evaluations below: an instance built
  from the configuration \<open>()\<close> that reports strings; the plain dictionary
  \<^verbatim>\<open>{0: Color.green}\<close>; a \<^verbatim>\<open>defaultdict\<close> that maps every status to yellow; and the
  instance after \<^verbatim>\<open>ui.formatter = StatusConsoleFormatter(yellow)\<close>.\<close>

definition example_ui :: "(unit, string, string) world" where
  "example_ui = new_ConsoleUserInterface ()"

definition success_only :: status_colors where
  "success_only = \<lparr>default_factory = None, items = [0 \<mapsto> Color_green]\<rparr>"

definition all_yellow :: status_colors where
  "all_yellow = \<lparr>default_factory = Some (\<lambda>_. Color_named ''yellow''), items = Map.empty\<rparr>"

definition example_installed :: "(unit, string, string) world" where
  "example_installed =
     (let (f, w) = alloc example_ui (StatusConsoleFormatter (StatusConsoleFormatter_init (Some all_yellow)))
      in formatter_set w f)"

subsection \<open>The default formatter\<close>

lemma percent_format_s_newline: "percent_format ''%s\<newline>'' s = s @ ''\<newline>''"
  by simp

lemma getitem_default:
  "getitem (StatusConsoleFormatter_init None) k =
     (if k = 0 then Inr (Color_green, StatusConsoleFormatter_init None)
      else Inr (Color_red, setitem (StatusConsoleFormatter_init None) k Color_red))"
  by (simp add: getitem_def StatusConsoleFormatter_init_def setitem_def)

subsection \<open>Attribute names\<close>

lemma private_name: "mangle ''ConsoleUserInterface'' ''__formatter'' = ''_ConsoleUserInterface__formatter''"
  by (simp add: mangle_def)

lemma class_attrs_literal: "class_attrs ''__formatter'' = None"
  by (simp add: class_attrs_def)

lemma class_attrs_report: "class_attrs ''report'' = Some Method"
  by (simp add: class_attrs_def)

lemma hasattr_literal: "hasattr w ''__formatter'' \<longleftrightarrow> self_dict w ''__formatter'' \<noteq> None"
  by (simp add: hasattr_def class_attrs_literal)

lemma getattr_report:
  "getattr w ''report'' = (case self_dict w ''report'' of Some l \<Rightarrow> Inr (Instance_attr l) | None \<Rightarrow> Inr Bound_method)"
  by (simp add: getattr_def class_attrs_report split: option.splits)

lemma formatter_get_fresh:
  assumes "self_dict w ''__formatter'' = None"
  shows "formatter_get w =
    (Inr (length (heap w)),
     w\<lparr>heap := heap w @ [StatusConsoleFormatter (StatusConsoleFormatter_init None)],
       self_dict := (self_dict w)(''_ConsoleUserInterface__formatter'' \<mapsto> length (heap w))\<rparr>)"
  using assms by (simp add: formatter_get_def hasattr_literal alloc_def setattr_def private_name)

subsection \<open>Effects of the methods\<close>

lemma default_call:
  "StatusConsoleFormatter_call str (StatusConsoleFormatter_init None) obj stat dat =
     (Inr [(str obj @ ''\<newline>'', if stat = 0 then Color_green else Color_red)],
      if stat = 0 then StatusConsoleFormatter_init None
      else setitem (StatusConsoleFormatter_init None) stat Color_red)"
  by (simp add: StatusConsoleFormatter_call_def getitem_default)

lemma well_formedD:
  "well_formed w \<Longrightarrow> self_dict w ''__formatter'' = None \<and>
     (\<exists>l. self_dict w ''report'' = Some l \<and> l < length (heap w) \<and> heap w ! l = ListObject (log_of w))"
  by (auto simp: well_formed_def log_of_def split: option.splits pyobject.splits)

lemma report_body_effect:
  assumes "self_dict w ''__formatter'' = None" "self_dict w ''report'' = Some l"
    "l < length (heap w)" "heap w ! l = ListObject xs"
  shows "report_body str w obj stat dat =
    (Inr (),
     w\<lparr>heap := (heap w)[l := ListObject (xs @ [\<lparr>object = obj, status = stat, data = dat\<rparr>])] @
         [StatusConsoleFormatter (if stat = 0 then StatusConsoleFormatter_init None
            else setitem (StatusConsoleFormatter_init None) stat Color_red)],
      self_dict := (self_dict w)(''_ConsoleUserInterface__formatter'' \<mapsto> length (heap w)),
      console := console w @ [(str obj @ ''\<newline>'', if stat = 0 then Color_green else Color_red)]\<rparr>)"
proof -
  let ?w1 = "w\<lparr>heap := (heap w)[l := ListObject (xs @ [\<lparr>object = obj, status = stat, data = dat\<rparr>])]\<rparr>"
  have a: "append_to w l \<lparr>object = obj, status = stat, data = dat\<rparr> = Inr ?w1"
    using assms by (simp add: append_to_def)
  have g: "formatter_get ?w1 =
    (Inr (length (heap w)),
     ?w1\<lparr>heap := heap ?w1 @ [StatusConsoleFormatter (StatusConsoleFormatter_init None)],
       self_dict := (self_dict ?w1)(''_ConsoleUserInterface__formatter'' \<mapsto> length (heap ?w1))\<rparr>)"
    using assms(1) by (subst formatter_get_fresh) simp_all
  show ?thesis
    using assms
    by (simp add: report_body_def getattr_report a g call_object_def default_call cprint_def nth_append list_update_append)
qed

lemma invoke_report_list:
  assumes "self_dict w ''report'' = Some l" "l < length (heap w)" "heap w ! l = ListObject xs"
  shows "invoke_report str w obj status_arg data_arg = (Inl TypeError, w)"
  using assms by (simp add: invoke_report_def getattr_report call_object_def)

lemma well_formed_init: "self_dict w ''__formatter'' = None \<Longrightarrow> well_formed (init w config)"
  by (simp add: well_formed_def init_def setattr_def alloc_def)


lemma well_formed_alloc: "well_formed w \<Longrightarrow> well_formed (snd (alloc w ob))"
  by (auto simp: well_formed_def alloc_def nth_append split: option.splits)

lemma well_formed_formatter_get: "well_formed w \<Longrightarrow> well_formed (snd (formatter_get w))"
  by (auto simp: well_formed_def formatter_get_fresh nth_append split: option.splits)

lemma well_formed_formatter_set: "well_formed w \<Longrightarrow> well_formed (formatter_set w f)"
  by (auto simp: well_formed_def formatter_set_def setattr_def private_name split: option.splits)

lemma well_formed_error: "well_formed w \<Longrightarrow> well_formed (error w message)"
  by (simp add: well_formed_def error_def cprint_def split: option.splits)

lemma well_formed_report_body:
  assumes "well_formed w"
  shows "well_formed (snd (report_body str w obj stat dat))"
proof -
  from well_formedD [OF assms] obtain l where
    l: "self_dict w ''__formatter'' = None" "self_dict w ''report'' = Some l"
       "l < length (heap w)" "heap w ! l = ListObject (log_of w)"
    by blast
  show ?thesis
    using l by (simp add: report_body_effect [OF l] well_formed_def nth_append)
qed

lemma well_formed_invoke_report:
  assumes "well_formed w"
  shows "invoke_report str w obj status_arg data_arg = (Inl TypeError, w)"
proof -
  from well_formedD [OF assms] obtain l where
    "self_dict w ''report'' = Some l" "l < length (heap w)" "heap w ! l = ListObject (log_of w)"
    by blast
  then show ?thesis by (rule invoke_report_list)
qed

lemma reachable_well_formed: "reachable str w \<Longrightarrow> well_formed w"
proof (induction rule: reachable.induct)
  case (constructed config hp out)
  show ?case by (rule well_formed_init) simp
next
  case (created w ob)
  then show ?case by (simp add: well_formed_alloc)
next
  case (formatter_read w)
  then show ?case by (simp add: well_formed_formatter_get)
next
  case (formatter_written w f)
  then show ?case by (simp add: well_formed_formatter_set)
next
  case (reported w obj status_arg data_arg)
  then show ?case by (simp add: report_def well_formed_report_body)
next
  case (invoked w obj status_arg data_arg)
  then show ?case by (simp add: well_formed_invoke_report)
next
  case (error_shown w message)
  then show ?case by (simp add: well_formed_error)
qed

subsection \<open>The example instances\<close>

lemma example_ui_eq:
  "example_ui = \<lparr>heap = [Opaque (), ListObject []],
      self_dict = [''config'' \<mapsto> 0, ''report'' \<mapsto> 1], console = []\<rparr>"
  by (simp add: example_ui_def new_ConsoleUserInterface_def init_def setattr_def alloc_def)

lemma example_installed_eq:
  "example_installed = \<lparr>heap = [Opaque (), ListObject [], StatusConsoleFormatter all_yellow],
      self_dict = [''config'' \<mapsto> 0, ''report'' \<mapsto> 1, ''_ConsoleUserInterface__formatter'' \<mapsto> 2],
      console = []\<rparr>"
  by (simp add: example_installed_def example_ui_eq alloc_def formatter_set_def setattr_def
      private_name StatusConsoleFormatter_init_def numeral_2_eq_2)

lemma reachable_example_ui: "reachable str example_ui"
  unfolding example_ui_def new_ConsoleUserInterface_def
  by (rule reachable.constructed) simp

lemma reachable_example_installed: "reachable str example_installed"
proof -
  let ?ob = "StatusConsoleFormatter (StatusConsoleFormatter_init (Some all_yellow)) :: (unit, string, string) pyobject"
  have "reachable str (snd (alloc example_ui ?ob))"
    by (rule reachable.created) (rule reachable_example_ui)
  then have "reachable str (formatter_set (snd (alloc example_ui ?ob)) 2)"
    by (rule reachable.formatter_written) (simp add: alloc_def example_ui_eq)
  then show ?thesis
    by (simp add: example_installed_def alloc_def example_ui_eq numeral_2_eq_2)
qed

lemma report_through_class:
  assumes "reachable str w"
  shows "fst (report_body str w obj stat dat) = Inr ()
    \<and> log_of (snd (report_body str w obj stat dat)) =
        log_of w @ [\<lparr>object = obj, status = stat, data = dat\<rparr>]
    \<and> console (snd (report_body str w obj stat dat)) =
        console w @ [(str obj @ ''\<newline>'', if stat = 0 then Color_green else Color_red)]"
proof -
  from assms have wf: "well_formed w" by (rule reachable_well_formed)
  from well_formedD [OF wf] obtain l where
    l: "self_dict w ''__formatter'' = None" "self_dict w ''report'' = Some l"
       "l < length (heap w)" "heap w ! l = ListObject (log_of w)"
    by blast
  show ?thesis
    using l by (simp add: report_body_effect [OF l] log_of_def nth_append)
qed

section \<open>The claims\<close>

text \<open>
  C1, evaluated on the code. The claim says that every call of \<^verbatim>\<open>report\<close> appends one
  record and prints what the active formatter returns. On a constructed instance the
  call \<^verbatim>\<open>ui.report('build', 1, 'timeout')\<close> raises \<^verbatim>\<open>TypeError\<close> and leaves the log empty
  and the store unchanged, since \<^verbatim>\<open>ui.report\<close> is the list. Reached through the class,
  \<^verbatim>\<open>ConsoleUserInterface.report(ui, 'build', 0, None)\<close> on the instance with the yellow
  formatter installed returns normally but prints the green pair of a new default
  formatter, where the installed formatter (the object at reference 2) returns the
  yellow pair.
\<close>

theorem report_through_instance_fails:
  "invoke_report id example_ui ''build'' (Some 1) (Some (Some ''timeout'')) = (Inl TypeError, example_ui)
   \<and> log_of example_ui = []
   \<and> fst (call_object id example_installed 2 ''build'' (Some 0) (Some None)) = Inr [(''build\<newline>'', Color_named ''yellow'')]
   \<and> fst (report id example_installed ''build'' (Some 0) (Some None)) = Inr ()
   \<and> console (snd (report id example_installed ''build'' (Some 0) (Some None))) = [(''build\<newline>'', Color_green)]"
proof -
  have a: "invoke_report id example_ui ''build'' (Some 1) (Some (Some ''timeout'')) = (Inl TypeError, example_ui)"
    by (rule invoke_report_list [where l = 1 and xs = "[]"]) (simp_all add: example_ui_eq)
  have b: "log_of example_ui = []"
    by (simp add: log_of_def example_ui_eq)
  have c: "fst (call_object id example_installed 2 ''build'' (Some 0) (Some None))
      = Inr [(''build\<newline>'', Color_named ''yellow'')]"
    by (simp add: call_object_def example_installed_eq StatusConsoleFormatter_call_def getitem_def
        all_yellow_def Let_def)
  have d: "report_body id example_installed ''build'' 0 None =
    (Inr (),
     example_installed\<lparr>heap := (heap example_installed)[1 := ListObject ([] @ [\<lparr>object = ''build'', status = 0, data = None\<rparr>])] @
         [StatusConsoleFormatter (if (0::int) = 0 then StatusConsoleFormatter_init None
            else setitem (StatusConsoleFormatter_init None) 0 Color_red)],
      self_dict := (self_dict example_installed)(''_ConsoleUserInterface__formatter'' \<mapsto> length (heap example_installed)),
      console := console example_installed @ [(id ''build'' @ ''\<newline>'', if (0::int) = 0 then Color_green else Color_red)]\<rparr>)"
    by (rule report_body_effect) (simp_all add: example_installed_eq)
  have e: "report id example_installed ''build'' (Some 0) (Some None) = report_body id example_installed ''build'' 0 None"
    by (simp add: report_def)
  have f: "fst (report id example_installed ''build'' (Some 0) (Some None)) = Inr ()"
    by (simp add: e d)
  have g: "console (snd (report id example_installed ''build'' (Some 0) (Some None)))
      = [(''build\<newline>'', Color_green)]"
    by (simp add: e d) (simp add: example_installed_eq)
  from a b c f g show ?thesis by blast
qed

text \<open>
  C2, evaluated on the code. The claim says that \<^verbatim>\<open>error(message)\<close> writes the message in
  the failure color. The one call of \<^verbatim>\<open>cprint\<close> that \<^verbatim>\<open>error('disk full')\<close> makes passes the
  format string itself, uninterpolated; the message does not reach the console.
\<close>

theorem error_ignores_message:
  "console (error example_ui ''disk full'') = [(''ERROR: %s\<newline>'', Color_red)]"
  by (simp add: error_def cprint_def example_ui_eq)

text \<open>
  C3, evaluated on the code. The claim says that reading the property \<^verbatim>\<open>formatter\<close> after
  setting it returns the object that was set. After
  \<^verbatim>\<open>ui.formatter = f\<close>, with \<open>f\<close> the yellow formatter at reference 2, the private attribute
  holds \<open>f\<close>, yet the read returns reference 3, a default formatter that the read has
  just created.
\<close>

theorem installed_formatter_not_read_back:
  "self_dict example_installed ''_ConsoleUserInterface__formatter'' = Some 2
   \<and> heap example_installed ! 2 = StatusConsoleFormatter all_yellow
   \<and> fst (formatter_get example_installed) = Inr 3
   \<and> heap (snd (formatter_get example_installed)) ! 3 = StatusConsoleFormatter (StatusConsoleFormatter_init None)"
proof -
  have "self_dict example_installed ''__formatter'' = None"
    by (simp add: example_installed_eq)
  then show ?thesis
    by (simp add: formatter_get_fresh) (simp add: example_installed_eq numeral_3_eq_3 numeral_2_eq_2)
qed

text \<open>
  C4. Construction binds the instance attribute \<^verbatim>\<open>report\<close> to a new, empty list, so that
  reading \<^verbatim>\<open>report\<close> on the instance yields that list and not the method, and calling
  \<^verbatim>\<open>ui.report(...)\<close> raises \<^verbatim>\<open>TypeError\<close> and changes nothing. The same holds in every
  later state of the instance: the attribute still refers to a list (the log), and the
  call through the instance fails.
\<close>

theorem report_attribute_is_the_log:
  assumes "reachable str w"
  shows "getattr (init w0 config) ''report'' = Inr (Instance_attr (length (heap w0)))
    \<and> heap (init w0 config) ! length (heap w0) = ListObject []
    \<and> invoke_report str (init w0 config) obj status_arg data_arg = (Inl TypeError, init w0 config)
    \<and> (\<exists>l. getattr w ''report'' = Inr (Instance_attr l) \<and> l < length (heap w)
           \<and> heap w ! l = ListObject (log_of w))
    \<and> invoke_report str w obj status_arg data_arg = (Inl TypeError, w)"
proof -
  have a: "getattr (init w0 config) ''report'' = Inr (Instance_attr (length (heap w0)))"
    by (simp add: getattr_report init_def setattr_def alloc_def)
  have b: "heap (init w0 config) ! length (heap w0) = ListObject []"
    by (simp add: init_def setattr_def alloc_def)
  have c: "invoke_report str (init w0 config) obj status_arg data_arg = (Inl TypeError, init w0 config)"
    by (rule invoke_report_list [where l = "length (heap w0)" and xs = "[]"])
       (simp_all add: init_def setattr_def alloc_def)
  from assms have wf: "well_formed w" by (rule reachable_well_formed)
  from well_formedD [OF wf] obtain l where
    l: "self_dict w ''report'' = Some l" "l < length (heap w)" "heap w ! l = ListObject (log_of w)"
    by blast
  have d: "\<exists>l. getattr w ''report'' = Inr (Instance_attr l) \<and> l < length (heap w)
           \<and> heap w ! l = ListObject (log_of w)"
    using l by (simp add: getattr_report)
  have e: "invoke_report str w obj status_arg data_arg = (Inl TypeError, w)"
    using wf by (rule well_formed_invoke_report)
  from a b c d e show ?thesis by blast
qed

theorem report_attribute_is_the_log_witness:
  "reachable id example_installed
   \<and> getattr (init example_ui 0) ''report'' = Inr (Instance_attr 2)
   \<and> invoke_report id example_installed ''build'' None None = (Inl TypeError, example_installed)"
proof -
  have r: "reachable id example_installed" by (rule reachable_example_installed)
  have n: "length (heap example_ui) = 2" by (simp add: example_ui_eq)
  from report_attribute_is_the_log [OF r, of example_ui 0 "''build''" None None]
  show ?thesis using r n by simp
qed

text \<open>
  C5. A default-constructed \<^verbatim>\<open>StatusConsoleFormatter\<close> called with \<open>(obj, status, None)\<close>
  returns exactly one pair: the string form of \<open>obj\<close> followed by a newline, with the
  success color (green) for status 0 and the failure color (red) for every other
  status. The second component is the mapping afterwards: a status other than 0 is
  stored in it with the failure color.
\<close>

theorem default_formatter_output:
  "StatusConsoleFormatter_call str (StatusConsoleFormatter_init None) obj stat None =
     (Inr [(str obj @ ''\<newline>'', if stat = 0 then Color_green else Color_red)],
      if stat = 0 then StatusConsoleFormatter_init None
      else setitem (StatusConsoleFormatter_init None) stat Color_red)"
  by (rule default_call)

text \<open>
  C6, as stated, fails: a formatter constructed with the plain dictionary
  \<^verbatim>\<open>{0: Color.green}\<close> raises \<^verbatim>\<open>KeyError\<close> when it resolves status 1.
\<close>

theorem supplied_mapping_without_fallback_counterexample:
  "StatusConsoleFormatter_call id (StatusConsoleFormatter_init (Some success_only)) ''build'' 1 (None :: string option)
     = (Inl KeyError, success_only)"
  by (simp add: StatusConsoleFormatter_call_def StatusConsoleFormatter_init_def getitem_def success_only_def)

text \<open>
  C6, amended. What a formatter returns is decided by how it was constructed. Without
  an argument, status 0 resolves to the success color and every other status to the
  failure color. With a supplied mapping, a status present in it resolves to the color
  stored; a status absent from it resolves to the color of the mapping's own default
  factory when it has one, and raises \<^verbatim>\<open>KeyError\<close> when it has none.
\<close>

theorem status_color_resolution:
  "fst (StatusConsoleFormatter_call str (StatusConsoleFormatter_init arg) obj stat dat) =
     (case arg of
        None \<Rightarrow> Inr [(str obj @ ''\<newline>'', if stat = 0 then Color_green else Color_red)]
      | Some supplied \<Rightarrow>
          (case items supplied stat of
             Some color \<Rightarrow> Inr [(str obj @ ''\<newline>'', color)]
           | None \<Rightarrow>
               (case default_factory supplied of
                  Some factory \<Rightarrow> Inr [(str obj @ ''\<newline>'', factory ())]
                | None \<Rightarrow> Inl KeyError)))"
proof (cases arg)
  case None
  then show ?thesis by (simp add: default_call)
next
  case (Some supplied)
  then show ?thesis
    by (simp add: StatusConsoleFormatter_call_def getitem_def StatusConsoleFormatter_init_def
        Let_def split: option.splits)
qed

text \<open>
  C7. In every state of an instance, reading the property \<^verbatim>\<open>formatter\<close> creates a
  default \<^verbatim>\<open>StatusConsoleFormatter\<close> and returns it: the reference returned is the next
  free one, the store grows by that formatter, a second read returns yet another
  object, and after any existing object \<open>f\<close> has been installed by the setter the read
  still returns a new object, never \<open>f\<close>.
\<close>

theorem formatter_read_makes_new_default:
  assumes "reachable str w" and "f < length (heap w)"
  shows "fst (formatter_get w) = Inr (length (heap w))
    \<and> heap (snd (formatter_get w)) = heap w @ [StatusConsoleFormatter (StatusConsoleFormatter_init None)]
    \<and> fst (formatter_get (snd (formatter_get w))) = Inr (Suc (length (heap w)))
    \<and> fst (formatter_get (formatter_set w f)) = Inr (length (heap w))
    \<and> fst (formatter_get w) \<noteq> Inr f
    \<and> fst (formatter_get (formatter_set w f)) \<noteq> Inr f
    \<and> fst (formatter_get (snd (formatter_get w))) \<noteq> fst (formatter_get w)"
proof -
  from assms(1) have wf: "well_formed w" by (rule reachable_well_formed)
  then have n: "self_dict w ''__formatter'' = None"
    by (simp add: well_formedD)
  have n1: "self_dict (snd (formatter_get w)) ''__formatter'' = None"
    using n by (simp add: formatter_get_fresh)
  have n2: "self_dict (formatter_set w f) ''__formatter'' = None"
    using n by (simp add: formatter_set_def setattr_def private_name)
  have a: "fst (formatter_get w) = Inr (length (heap w))"
    using n by (simp add: formatter_get_fresh)
  have b: "heap (snd (formatter_get w)) = heap w @ [StatusConsoleFormatter (StatusConsoleFormatter_init None)]"
    using n by (simp add: formatter_get_fresh)
  have c: "fst (formatter_get (snd (formatter_get w))) = Inr (Suc (length (heap w)))"
    using n1 b by (simp add: formatter_get_fresh)
  have d: "fst (formatter_get (formatter_set w f)) = Inr (length (heap w))"
    using n2 by (simp add: formatter_get_fresh) (simp add: formatter_set_def setattr_def)
  from a b c d assms(2) show ?thesis by simp
qed


theorem formatter_read_makes_new_default_witness:
  "reachable id example_installed \<and> 2 < length (heap example_installed)
   \<and> fst (formatter_get example_installed) = Inr 3
   \<and> fst (formatter_get (snd (formatter_get example_installed))) = Inr 4
   \<and> fst (formatter_get (formatter_set example_installed 2)) \<noteq> Inr 2"
proof -
  have r: "reachable id example_installed" by (rule reachable_example_installed)
  have n: "length (heap example_installed) = 3" by (simp add: example_installed_eq)
  have f: "2 < length (heap example_installed)" by (simp add: n)
  from formatter_read_makes_new_default [OF r f]
  show ?thesis using r n by simp
qed

text \<open>
  C8. \<^verbatim>\<open>report(obj)\<close> with status and data left out is the same computation, with the
  same result and the same final state, as \<^verbatim>\<open>report(obj, 0, None)\<close>, in every state
  \<open>w'\<close> and through a newly constructed instance. In every state \<open>w\<close> of an instance
  both calls of the function return normally, store the record
  \<open>(obj, 0, None)\<close> at the end of the log, create one object, the default formatter at
  the next free reference, and print the one pair it returns for \<open>(obj, 0, None)\<close>: the
  string form of \<open>obj\<close> with a newline, in the success color.
\<close>

theorem report_defaults:
  assumes "reachable str w"
  shows "report str w' obj None None = report str w' obj (Some 0) (Some None)
   \<and> invoke_report str (init w0 config) obj None None =
     invoke_report str (init w0 config) obj (Some 0) (Some None)
   \<and> report str w obj None None = report str w obj (Some 0) (Some None)
   \<and> fst (report str w obj None None) = Inr ()
   \<and> log_of (snd (report str w obj None None)) =
       log_of w @ [\<lparr>object = obj, status = 0, data = None\<rparr>]
   \<and> console (snd (report str w obj None None)) =
       console w @ [(str obj @ ''\<newline>'', Color_green)]
   \<and> fst (report str w obj (Some 0) (Some None)) = Inr ()
   \<and> log_of (snd (report str w obj (Some 0) (Some None))) =
       log_of w @ [\<lparr>object = obj, status = 0, data = None\<rparr>]
   \<and> console (snd (report str w obj (Some 0) (Some None))) =
       console w @ [(str obj @ ''\<newline>'', Color_green)]
   \<and> heap (snd (report str w obj None None)) ! length (heap w) =
       StatusConsoleFormatter (StatusConsoleFormatter_init None)
   \<and> length (heap (snd (report str w obj None None))) = Suc (length (heap w))"
proof -
  have a: "report str w' obj None None = report str w' obj (Some 0) (Some None)"
    by (simp add: report_def)
  have b: "invoke_report str (init w0 config) obj None None =
     invoke_report str (init w0 config) obj (Some 0) (Some None)"
    by (simp add: report_def invoke_report_def getattr_report init_def setattr_def alloc_def
        call_object_def)
  have n: "report str w obj None None = report_body str w obj 0 None"
    by (simp add: report_def)
  have s: "report str w obj (Some 0) (Some None) = report_body str w obj 0 None"
    by (simp add: report_def)
  from assms have wf: "well_formed w" by (rule reachable_well_formed)
  from well_formedD [OF wf] obtain l where
    l: "self_dict w ''__formatter'' = None" "self_dict w ''report'' = Some l"
       "l < length (heap w)" "heap w ! l = ListObject (log_of w)"
    by blast
  have h: "heap (snd (report_body str w obj 0 None)) ! length (heap w) =
       StatusConsoleFormatter (StatusConsoleFormatter_init None)
     \<and> length (heap (snd (report_body str w obj 0 None))) = Suc (length (heap w))"
    by (simp add: report_body_effect [OF l] nth_append)
  from report_through_class [OF assms, of obj 0 None] h
  show ?thesis
    unfolding n s using a b by simp
qed

theorem report_defaults_witness:
  "reachable id example_installed
   \<and> report id example_installed ''build'' None None =
       report id example_installed ''build'' (Some 0) (Some None)
   \<and> fst (report id example_installed ''build'' None None) = Inr ()
   \<and> log_of (snd (report id example_installed ''build'' None None)) =
       [\<lparr>object = ''build'', status = 0, data = None\<rparr>]
   \<and> console (snd (report id example_installed ''build'' None None)) =
       [(''build\<newline>'', Color_green)]"
proof -
  have r: "reachable id example_installed" by (rule reachable_example_installed)
  have l: "log_of example_installed = []" by (simp add: log_of_def example_installed_eq)
  have c: "console example_installed = []" by (simp add: example_installed_eq)
  from report_defaults [OF r, of example_installed "''build''" example_ui 0]
  show ?thesis using r l c by simp
qed

text \<open>
  C9. \<^verbatim>\<open>ask\<close> with the message absent prompts with the empty string; with
  \<open>password\<close> true it returns what \<^verbatim>\<open>getpass.getpass\<close> returns for the prompt, and
  otherwise what \<^verbatim>\<open>raw_input\<close> returns for it, unchanged.
\<close>

theorem ask_delegates_to_terminal:
  "ask tty None True = getpass tty ''''
   \<and> ask tty None False = raw_input tty ''''
   \<and> ask tty (Some m) True = getpass tty m
   \<and> ask tty (Some m) False = raw_input tty m"
  by (simp add: ask_def or_empty_def)

text \<open>
  C10. The \<open>data\<close> argument has no influence on what a default-constructed
  \<^verbatim>\<open>StatusConsoleFormatter\<close> returns, nor on what one with any other mapping
  returns.
\<close>

theorem data_has_no_influence:
  "StatusConsoleFormatter_call str (StatusConsoleFormatter_init None) obj stat d1 =
   StatusConsoleFormatter_call str (StatusConsoleFormatter_init None) obj stat d2
   \<and> StatusConsoleFormatter_call str colors obj stat d1 =
     StatusConsoleFormatter_call str colors obj stat d2"
  by (simp add: StatusConsoleFormatter_call_def)

end
